theory Spec2Isabelle
  imports Main "HOL-Library.Word"
begin

section \<open>The RoIAlign dispatch header \<^verbatim>\<open>hutil/csrc/RoIAlign.h\<close>\<close>

text \<open>
  The header holds two entry points, \<^verbatim>\<open>RoIAlign_forward\<close> and
  \<^verbatim>\<open>RoIAlign_backward\<close>, each of which looks at the device of its first tensor and
  hands all of its arguments to a CUDA kernel or to a CPU kernel. Every line of the header
  is blank or a line comment. The first part of this theory embeds the two functions as they are
  written behind the comment markers; the second part embeds the text of the file itself.
\<close>

subsection \<open>Tensors, scalars and errors\<close>

text \<open>
  \<^verbatim>\<open>at::Tensor\<close> belongs to the tensor library. The header observes one thing of a
  tensor, \<^verbatim>\<open>t.type().is_cuda()\<close>; the sizes and the storage are carried along so
  that two tensors on the same device can differ.
\<close>

datatype device_type = CPU | CUDA

record tensor =
  device :: device_type
  sizes :: "nat list"
  storage :: "32 word list"

definition is_cuda :: "tensor \<Rightarrow> bool" where
  "is_cuda t \<longleftrightarrow> device t = CUDA"

text \<open>A C++ \<^verbatim>\<open>float\<close> is its 32-bit pattern, an \<^verbatim>\<open>int\<close> a 32-bit word.\<close>

type_synonym float32 = "32 word"
type_synonym int32 = "32 word"

text \<open>The exception of the tensor library, with its message.\<close>

datatype error = Error string

text \<open>
  A call either throws or returns a tensor, and it may change the world around it (device
  memory, caches, logs): a computation takes the state \<open>'s\<close> and gives the outcome with
  the state after it.
\<close>

type_synonym 's result = "'s \<Rightarrow> (error + tensor) \<times> 's"

text \<open>
  Modelled from the spec: the macro \<^verbatim>\<open>AT_ERROR\<close> comes from the tensor library and
  is not part of the repository; the call "aborts with a fixed failure". The model throws
  the error with the message given to the macro and touches nothing.
\<close>

definition AT_ERROR :: "string \<Rightarrow> 's result" where
  "AT_ERROR msg = (\<lambda>s. (Inl (Error msg), s))"

subsection \<open>The kernels\<close>

text \<open>
  \<^verbatim>\<open>RoIAlign_forward_cuda\<close>, \<^verbatim>\<open>RoIAlign_forward_cpu\<close>,
  \<^verbatim>\<open>RoIAlign_backward_cuda\<close> and \<^verbatim>\<open>RoIAlign_backward_cpu\<close> are declared in
  \<^verbatim>\<open>cpu/vision.h\<close> and \<^verbatim>\<open>cuda/vision.h\<close>, which are not in the sources. They
  are parameters of the entry points: any function of the right arity, which may throw and
  may change the state.
\<close>

type_synonym 's forward_kernel =
  "tensor \<Rightarrow> tensor \<Rightarrow> float32 \<Rightarrow> float32 \<Rightarrow> int32 \<Rightarrow> int32 \<Rightarrow> int32 \<Rightarrow> 's result"

type_synonym 's backward_kernel =
  "tensor \<Rightarrow> tensor \<Rightarrow> float32 \<Rightarrow> float32 \<Rightarrow> int32 \<Rightarrow> int32 \<Rightarrow>
   int32 \<Rightarrow> int32 \<Rightarrow> int32 \<Rightarrow> int32 \<Rightarrow> int32 \<Rightarrow> 's result"

subsection \<open>The entry points\<close>

text \<open>
  \<^verbatim>\<open>
  at::Tensor RoIAlign_forward(const at::Tensor& input, const at::Tensor& rois,
                              const float scale_h, const float scale_w,
                              const int pooled_height, const int pooled_width,
                              const int sampling_ratio)
  {
    if (input.type().is_cuda()) {
  #ifdef WITH_CUDA
      return RoIAlign_forward_cuda(input, rois, scale_h, scale_w,
      pooled_height, pooled_width, sampling_ratio);
  #else
      AT_ERROR("Not compiled with GPU support");
  #endif
    }
    return RoIAlign_forward_cpu(input, rois, scale_h, scale_w, pooled_height,
    pooled_width, sampling_ratio);
  }
  \<close>
  (lines 10 to 31 of the header, without the comment markers and without the comments
  between the parameters). The build flag \<^verbatim>\<open>WITH_CUDA\<close> is the first parameter of
  the model, the two kernels the next two. \<^verbatim>\<open>AT_ERROR\<close> throws, so the CPU call after the \<^verbatim>\<open>if\<close> is
  reached only when the test fails.
\<close>

definition RoIAlign_forward ::
  "bool \<Rightarrow> 's forward_kernel \<Rightarrow> 's forward_kernel \<Rightarrow>
   tensor \<Rightarrow> tensor \<Rightarrow> float32 \<Rightarrow> float32 \<Rightarrow> int32 \<Rightarrow> int32 \<Rightarrow> int32 \<Rightarrow> 's result" where
  "RoIAlign_forward WITH_CUDA RoIAlign_forward_cuda RoIAlign_forward_cpu
     input rois scale_h scale_w pooled_height pooled_width sampling_ratio =
   (if is_cuda input then
      (if WITH_CUDA then
         RoIAlign_forward_cuda input rois scale_h scale_w
           pooled_height pooled_width sampling_ratio
       else
         AT_ERROR ''Not compiled with GPU support'')
    else
      RoIAlign_forward_cpu input rois scale_h scale_w pooled_height
        pooled_width sampling_ratio)"

text \<open>
  \<^verbatim>\<open>
  at::Tensor RoIAlign_backward(const at::Tensor& grad, const at::Tensor& rois,
                               const float scale_h, const float scale_w,
                               const int pooled_height, const int pooled_width,
                               const int batch_size, const int channels,
                               const int height, const int width,
                               const int sampling_ratio) {
    if (grad.type().is_cuda()) {
  #ifdef WITH_CUDA
      return RoIAlign_backward_cuda(grad, rois, scale_h, scale_w,
      pooled_height, pooled_width, batch_size, channels, height, width,
      sampling_ratio);
  #else
      AT_ERROR("Not compiled with GPU support");
  #endif
    }
    return RoIAlign_backward_cpu(grad, rois, scale_h, scale_w, pooled_height,
    pooled_width, batch_size, channels, height, width, sampling_ratio);
  }
  \<close>
  (lines 33 to 55 of the header, without the comment markers).
\<close>

definition RoIAlign_backward ::
  "bool \<Rightarrow> 's backward_kernel \<Rightarrow> 's backward_kernel \<Rightarrow>
   tensor \<Rightarrow> tensor \<Rightarrow> float32 \<Rightarrow> float32 \<Rightarrow> int32 \<Rightarrow> int32 \<Rightarrow>
   int32 \<Rightarrow> int32 \<Rightarrow> int32 \<Rightarrow> int32 \<Rightarrow> int32 \<Rightarrow> 's result" where
  "RoIAlign_backward WITH_CUDA RoIAlign_backward_cuda RoIAlign_backward_cpu
     grad rois scale_h scale_w pooled_height pooled_width
     batch_size channels height width sampling_ratio =
   (if is_cuda grad then
      (if WITH_CUDA then
         RoIAlign_backward_cuda grad rois scale_h scale_w
           pooled_height pooled_width batch_size channels height width
           sampling_ratio
       else
         AT_ERROR ''Not compiled with GPU support'')
    else
      RoIAlign_backward_cpu grad rois scale_h scale_w pooled_height
        pooled_width batch_size channels height width sampling_ratio)"

subsection \<open>The kernel a call selects, in the words of the spec\<close>

text \<open>
  The spec describes the logic of the entry points as "a device-type check followed by
  conditional compilation to select a CUDA or CPU code path". This is the selection in
  these words, to be compared with the entry points: the CPU kernel for a tensor that is
  not on the GPU, the CUDA kernel for a tensor on the GPU when the build has it, and no
  kernel for a tensor on the GPU when the build has none.
\<close>

definition selected_kernel :: "bool \<Rightarrow> 'k \<Rightarrow> 'k \<Rightarrow> tensor \<Rightarrow> 'k option" where
  "selected_kernel WITH_CUDA cuda cpu t =
     (if is_cuda t then (if WITH_CUDA then Some cuda else None) else Some cpu)"

subsection \<open>Observing which branch a call takes\<close>

text \<open>
  The entry points are polymorphic in the state, so the kernels can be replaced by kernels
  that do nothing but write their own name to a log and return their first tensor. Running
  an entry point on the empty log with these kernels shows which branch the call takes:
  the CUDA kernel, the CPU kernel, or the abort (an error with no kernel in the log).
\<close>

datatype event = CUDA_kernel | CPU_kernel | Abort

definition logging_forward :: "event \<Rightarrow> event list forward_kernel" where
  "logging_forward k input rois scale_h scale_w pooled_height pooled_width sampling_ratio =
     (\<lambda>log. (Inr input, log @ [k]))"

definition logging_backward :: "event \<Rightarrow> event list backward_kernel" where
  "logging_backward k grad rois scale_h scale_w pooled_height pooled_width
     batch_size channels height width sampling_ratio =
     (\<lambda>log. (Inr grad, log @ [k]))"

definition trace :: "(error + tensor) \<times> event list \<Rightarrow> event list" where
  "trace r = (case fst r of Inl e \<Rightarrow> snd r @ [Abort] | Inr t \<Rightarrow> snd r)"

definition forward_trace ::
  "bool \<Rightarrow> tensor \<Rightarrow> tensor \<Rightarrow> float32 \<Rightarrow> float32 \<Rightarrow> int32 \<Rightarrow> int32 \<Rightarrow> int32 \<Rightarrow> event list" where
  "forward_trace WITH_CUDA input rois scale_h scale_w pooled_height pooled_width sampling_ratio =
     trace (RoIAlign_forward WITH_CUDA (logging_forward CUDA_kernel) (logging_forward CPU_kernel)
       input rois scale_h scale_w pooled_height pooled_width sampling_ratio [])"

definition backward_trace ::
  "bool \<Rightarrow> tensor \<Rightarrow> tensor \<Rightarrow> float32 \<Rightarrow> float32 \<Rightarrow> int32 \<Rightarrow> int32 \<Rightarrow>
   int32 \<Rightarrow> int32 \<Rightarrow> int32 \<Rightarrow> int32 \<Rightarrow> int32 \<Rightarrow> event list" where
  "backward_trace WITH_CUDA grad rois scale_h scale_w pooled_height pooled_width
     batch_size channels height width sampling_ratio =
     trace (RoIAlign_backward WITH_CUDA (logging_backward CUDA_kernel) (logging_backward CPU_kernel)
       grad rois scale_h scale_w pooled_height pooled_width
       batch_size channels height width sampling_ratio [])"

text \<open>Two tensors for the concrete calls below, one on each device.\<close>

definition gpu_tensor :: tensor where
  "gpu_tensor = \<lparr>device = CUDA, sizes = [1, 2], storage = [3, 4]\<rparr>"

definition cpu_tensor :: tensor where
  "cpu_tensor = \<lparr>device = CPU, sizes = [2], storage = [5, 6]\<rparr>"

subsection \<open>The text of the header\<close>

text \<open>The 55 lines of \<^verbatim>\<open>hutil/csrc/RoIAlign.h\<close>, as they are in the file.\<close>

definition RoIAlign_h :: "string list" where
  \<open>RoIAlign_h = [
    ''// #pragma once'',
    '''',
    ''// #include "cpu/vision.h"'',
    '''',
    ''// #ifdef WITH_CUDA'',
    ''// #include "cuda/vision.h"'',
    ''// #endif'',
    '''',
    ''// // Interface for Python'',
    ''// at::Tensor RoIAlign_forward(const at::Tensor& input,    // Input feature map.'',
    ''//                             const at::Tensor& rois,     // List of RoIs to'',
    ''//                             pool over. const float scale_h,  // The scale of'',
    ''//                             the image features. RoIs will be scaled to this.'',
    ''//                             const float scale_w,'',
    ''//                             const int pooled_height,    // The height of the'',
    ''//                             pooled feature map. const int pooled_width, //'',
    ''//                             The width of the pooled feature const int'',
    ''//                             sampling_ratio)   // The number of points to'',
    ''//                             sample in each bin along each axis.'',
    ''// {'',
    ''//   if (input.type().is_cuda()) {'',
    ''// #ifdef WITH_CUDA'',
    ''//     return RoIAlign_forward_cuda(input, rois, scale_h, scale_w,'',
    ''//     pooled_height, pooled_width, sampling_ratio);'',
    ''// #else'',
    ''//     AT_ERROR("Not compiled with GPU support");'',
    ''// #endif'',
    ''//   }'',
    ''//   return RoIAlign_forward_cpu(input, rois, scale_h, scale_w, pooled_height,'',
    ''//   pooled_width, sampling_ratio);'',
    ''// }'',
    '''',
    ''// at::Tensor RoIAlign_backward(const at::Tensor& grad,'',
    ''//                              const at::Tensor& rois,'',
    ''//                              const float scale_h,'',
    ''//                              const float scale_w,'',
    ''//                              const int pooled_height,'',
    ''//                              const int pooled_width,'',
    ''//                              const int batch_size,'',
    ''//                              const int channels,'',
    ''//                              const int height,'',
    ''//                              const int width,'',
    ''//                              const int sampling_ratio) {'',
    ''//   if (grad.type().is_cuda()) {'',
    ''// #ifdef WITH_CUDA'',
    ''//     return RoIAlign_backward_cuda(grad, rois, scale_h, scale_w,'',
    ''//     pooled_height, pooled_width, batch_size, channels, height, width,'',
    ''//     sampling_ratio);'',
    ''// #else'',
    ''//     AT_ERROR("Not compiled with GPU support");'',
    ''// #endif'',
    ''//   }'',
    ''//   return RoIAlign_backward_cpu(grad, rois, scale_h, scale_w, pooled_height,'',
    ''//   pooled_width, batch_size, channels, height, width, sampling_ratio);'',
    ''// }'']\<close>

text \<open>
  A line is disabled when it is blank or when its first characters after the indentation
  are the line-comment marker \<^verbatim>\<open>//\<close>.
\<close>

definition is_space :: "char \<Rightarrow> bool" where
  "is_space c \<longleftrightarrow> c = CHR '' '' \<or> c = CHR 0x09"

definition blank :: "string \<Rightarrow> bool" where
  "blank l \<longleftrightarrow> dropWhile is_space l = []"

definition commented_out :: "string \<Rightarrow> bool" where
  "commented_out l \<longleftrightarrow> take 2 (dropWhile is_space l) = ''//''"

definition disabled :: "string \<Rightarrow> bool" where
  "disabled l \<longleftrightarrow> blank l \<or> commented_out l"

text \<open>
  What the compiler sees of a line: the text before the first \<^verbatim>\<open>//\<close>. Block
  comments, line splicing with a backslash and a \<^verbatim>\<open>//\<close> inside a string
  literal are not treated: the header has no \<^verbatim>\<open>*\<close> and no backslash
  (\<open>no_star_no_backslash\<close> below), and its string literals hold no two slashes in a row.
\<close>

fun strip_comment :: "string \<Rightarrow> string" where
  "strip_comment (c # d # cs) =
     (if c = CHR ''/'' \<and> d = CHR ''/'' then [] else c # strip_comment (d # cs))"
| "strip_comment cs = cs"

text \<open>
  Tokens: a maximal run of letters, digits, underscores and colons is one token (so that
  \<^verbatim>\<open>at::Tensor\<close> is one), every other character that is not white space is a
  token by itself.
\<close>

definition ident_char :: "char \<Rightarrow> bool" where
  "ident_char c \<longleftrightarrow>
     List.member ''abcdefghijklmnopqrstuvwxyzABCDEFGHIJKLMNOPQRSTUVWXYZ0123456789_:'' c"

fun tokenize :: "string \<Rightarrow> string \<Rightarrow> string list" where
  "tokenize w [] = (if w = [] then [] else [w])"
| "tokenize w (c # cs) =
     (if is_space c then (if w = [] then [] else [w]) @ tokenize [] cs
      else if ident_char c then tokenize (w @ [c]) cs
      else (if w = [] then [] else [w]) @ [c] # tokenize [] cs)"

definition tokens :: "string list \<Rightarrow> string list" where
  "tokens ls = concat (map (\<lambda>l. tokenize [] (strip_comment l)) ls)"

text \<open>
  Enabling the header removes the comment marker, and the space after it, from the start
  of each line.
\<close>

definition uncomment :: "string \<Rightarrow> string" where
  "uncomment l =
     (if take 3 l = ''// '' then drop 3 l else if take 2 l = ''//'' then drop 2 l else l)"

definition enabled :: "string list \<Rightarrow> string list" where
  "enabled ls = map uncomment ls"

text \<open>
  The head of a function \<open>f\<close> in a token list: the token before the name, the tokens
  between the parenthesis after the name and the next closing parenthesis, and the tokens
  between that parenthesis and the brace of the body (or the semicolon of a declaration).
  The parameter lists of the header hold no parenthesis of their own.
\<close>

fun declared :: "string \<Rightarrow> string list \<Rightarrow> (string \<times> string list \<times> string list) option" where
  "declared f (r # t # u # ts) =
     (if t = f \<and> u = ''('' then
        Some (r, takeWhile (\<lambda>x. x \<noteq> '')'') ts,
              takeWhile (\<lambda>x. x \<noteq> ''{'' \<and> x \<noteq> '';'')
                (drop 1 (dropWhile (\<lambda>x. x \<noteq> '')'') ts)))
      else declared f (t # u # ts))"
| "declared f ts = None"

fun split_commas :: "string list \<Rightarrow> string list list" where
  "split_commas [] = [[]]"
| "split_commas (t # ts) =
     (if t = '','' then [] # split_commas ts
      else (case split_commas ts of p # ps \<Rightarrow> (t # p) # ps | [] \<Rightarrow> [[t]]))"

text \<open>
  A parameter is declared as \<^verbatim>\<open>[const] type [&] name\<close>: an optional
  \<^verbatim>\<open>const\<close>, the name of a type, an optional \<^verbatim>\<open>&\<close>, and an identifier that
  is neither the name of a type nor \<^verbatim>\<open>const\<close>. A group of tokens of any other shape
  is no declarator. The result is the tokens of the type and the name.
\<close>

definition type_name :: "string \<Rightarrow> bool" where
  "type_name t \<longleftrightarrow>
     List.member [''at::Tensor'', ''float'', ''double'', ''int'', ''long'', ''bool''] t"

definition is_ident :: "string \<Rightarrow> bool" where
  "is_ident n \<longleftrightarrow>
     n \<noteq> [] \<and> list_all (\<lambda>c. ident_char c \<and> c \<noteq> CHR '':'') n \<and>
     \<not> List.member ''0123456789'' (hd n) \<and> \<not> type_name n \<and> n \<noteq> ''const''"

definition declarator :: "string list \<Rightarrow> (string list \<times> string) option" where
  "declarator g =
     (case (if take 1 g = [''const''] then drop 1 g else g) of
        [t, n] \<Rightarrow> if type_name t \<and> is_ident n then Some (butlast g, n) else None
      | [t, a, n] \<Rightarrow>
          if type_name t \<and> a = ''&'' \<and> is_ident n then Some (butlast g, n) else None
      | _ \<Rightarrow> None)"

text \<open>
  The declaration of \<open>f\<close>: its return type and its parameters, when the token before the
  name is the name of a type, every group between two commas is a declarator, and the
  body or the semicolon comes right after the closing parenthesis. Anything else is no
  declaration.
\<close>

definition read_declaration ::
  "string \<Rightarrow> string list \<Rightarrow> (string \<times> (string list \<times> string) list) option" where
  "read_declaration f ts =
     (case declared f ts of
        None \<Rightarrow> None
      | Some (r, ps, rest) \<Rightarrow>
          (let ds = map declarator (if ps = [] then [] else split_commas ps) in
           if type_name r \<and> rest = [] \<and> list_all (\<lambda>d. d \<noteq> None) ds
           then Some (r, map the ds) else None))"

text \<open>The return type and the names of the parameters, in their order.\<close>

definition signature :: "string \<Rightarrow> string list \<Rightarrow> (string \<times> string list) option" where
  "signature f ts = map_option (\<lambda>d. (fst d, map snd (snd d))) (read_declaration f ts)"



section \<open>Properties\<close>

subsection \<open>What the logging kernels record\<close>

lemma forward_trace_eq:
  "forward_trace WITH_CUDA input rois scale_h scale_w pooled_height pooled_width sampling_ratio =
     [if is_cuda input then (if WITH_CUDA then CUDA_kernel else Abort) else CPU_kernel]"
  by (simp add: forward_trace_def RoIAlign_forward_def trace_def logging_forward_def AT_ERROR_def)

lemma backward_trace_eq:
  "backward_trace WITH_CUDA grad rois scale_h scale_w pooled_height pooled_width
     batch_size channels height width sampling_ratio =
     [if is_cuda grad then (if WITH_CUDA then CUDA_kernel else Abort) else CPU_kernel]"
  by (simp add: backward_trace_def RoIAlign_backward_def trace_def logging_backward_def
        AT_ERROR_def)

text \<open>
  The trace of the logging kernels says what an entry point does with any kernels: the
  event it shows is the kernel that is called, on the arguments and the state of the call,
  or the abort.
\<close>

lemma RoIAlign_forward_by_trace:
  "RoIAlign_forward WITH_CUDA cuda cpu input rois scale_h scale_w pooled_height pooled_width
       sampling_ratio s =
     (case forward_trace WITH_CUDA input rois scale_h scale_w pooled_height pooled_width
             sampling_ratio of
        [CUDA_kernel] \<Rightarrow>
          cuda input rois scale_h scale_w pooled_height pooled_width sampling_ratio s
      | [CPU_kernel] \<Rightarrow>
          cpu input rois scale_h scale_w pooled_height pooled_width sampling_ratio s
      | _ \<Rightarrow> (Inl (Error ''Not compiled with GPU support''), s))"
  by (simp add: forward_trace_eq RoIAlign_forward_def AT_ERROR_def)

lemma RoIAlign_backward_by_trace:
  "RoIAlign_backward WITH_CUDA cuda cpu grad rois scale_h scale_w pooled_height pooled_width
       batch_size channels height width sampling_ratio s =
     (case backward_trace WITH_CUDA grad rois scale_h scale_w pooled_height pooled_width
             batch_size channels height width sampling_ratio of
        [CUDA_kernel] \<Rightarrow>
          cuda grad rois scale_h scale_w pooled_height pooled_width
            batch_size channels height width sampling_ratio s
      | [CPU_kernel] \<Rightarrow>
          cpu grad rois scale_h scale_w pooled_height pooled_width
            batch_size channels height width sampling_ratio s
      | _ \<Rightarrow> (Inl (Error ''Not compiled with GPU support''), s))"
  by (simp add: backward_trace_eq RoIAlign_backward_def AT_ERROR_def)

text \<open>The two lines of the header that throw, with the message as it is written there.\<close>

lemma AT_ERROR_lines:
  \<open>RoIAlign_h ! 25 = ''//     AT_ERROR("Not compiled with GPU support");'' \<and>
   RoIAlign_h ! 49 = ''//     AT_ERROR("Not compiled with GPU support");''\<close>
  by (simp add: RoIAlign_h_def)

lemma is_cuda_gpu_tensor: "is_cuda gpu_tensor"
  by (simp add: is_cuda_def gpu_tensor_def)

lemma not_is_cuda_cpu_tensor: "\<not> is_cuda cpu_tensor"
  by (simp add: is_cuda_def cpu_tensor_def)

subsection \<open>The abort of a build without GPU support\<close>

text \<open>
  C1 gives the message of the abort as "not compiled with GPU support". The text handed to
  \<^verbatim>\<open>AT_ERROR\<close> in lines 26 and 50 of the header begins with a capital letter: on a
  call whose first tensor is on the GPU, in a build without \<^verbatim>\<open>WITH_CUDA\<close>, the
  error does not carry the message as C1 writes it.
\<close>

theorem gpu_support_message_counterexample:
  "fst (RoIAlign_forward False (logging_forward CUDA_kernel) (logging_forward CPU_kernel)
          gpu_tensor cpu_tensor 1 2 3 4 5 [])
     \<noteq> Inl (Error ''not compiled with GPU support'')"
  by (simp add: RoIAlign_forward_def is_cuda_gpu_tensor AT_ERROR_def)

text \<open>
  C1, amended: in a build without \<^verbatim>\<open>WITH_CUDA\<close>, a call to
  \<^verbatim>\<open>RoIAlign_forward\<close> whose \<open>input\<close> is on the GPU, or to
  \<^verbatim>\<open>RoIAlign_backward\<close> whose \<open>grad\<close> is on the GPU, throws the error with the
  message "Not compiled with GPU support", whatever the kernels are, and no kernel is
  called: the trace of the call is the abort alone.
\<close>

theorem gpu_support_abort:
  assumes "\<not> WITH_CUDA"
  shows "(is_cuda input \<longrightarrow>
            fst (RoIAlign_forward WITH_CUDA cuda cpu input rois scale_h scale_w
                   pooled_height pooled_width sampling_ratio s)
              = Inl (Error ''Not compiled with GPU support'') \<and>
            forward_trace WITH_CUDA input rois scale_h scale_w
                   pooled_height pooled_width sampling_ratio = [Abort]) \<and>
         (is_cuda grad \<longrightarrow>
            fst (RoIAlign_backward WITH_CUDA cuda' cpu' grad rois scale_h scale_w
                   pooled_height pooled_width batch_size channels height width sampling_ratio s)
              = Inl (Error ''Not compiled with GPU support'') \<and>
            backward_trace WITH_CUDA grad rois scale_h scale_w
                   pooled_height pooled_width batch_size channels height width sampling_ratio
              = [Abort])"
  using assms
  by (simp add: RoIAlign_forward_def RoIAlign_backward_def AT_ERROR_def
        forward_trace_eq backward_trace_eq)

theorem gpu_support_abort_witness:
  "is_cuda gpu_tensor \<and>
   fst (RoIAlign_forward False (logging_forward CUDA_kernel) (logging_forward CPU_kernel)
          gpu_tensor cpu_tensor 1 2 3 4 5 [])
     = Inl (Error ''Not compiled with GPU support'') \<and>
   forward_trace False gpu_tensor cpu_tensor 1 2 3 4 5 = [Abort] \<and>
   fst (RoIAlign_backward False (logging_backward CUDA_kernel) (logging_backward CPU_kernel)
          gpu_tensor cpu_tensor 1 2 3 4 6 7 8 9 5 [])
     = Inl (Error ''Not compiled with GPU support'') \<and>
   backward_trace False gpu_tensor cpu_tensor 1 2 3 4 6 7 8 9 5 = [Abort]"
  using gpu_support_abort [where WITH_CUDA = False and input = gpu_tensor and grad = gpu_tensor
      and cuda = "logging_forward CUDA_kernel" and cpu = "logging_forward CPU_kernel"
      and cuda' = "logging_backward CUDA_kernel" and cpu' = "logging_backward CPU_kernel"
      and rois = cpu_tensor and scale_h = 1 and scale_w = 2 and pooled_height = 3
      and pooled_width = 4 and sampling_ratio = 5 and batch_size = 6 and channels = 7
      and height = 8 and width = 9 and s = "[]"]
  by (simp add: is_cuda_gpu_tensor)

subsection \<open>Dispatch\<close>

text \<open>
  C2: \<^verbatim>\<open>RoIAlign_forward\<close> branches on whether \<open>input\<close> is on the GPU. When it is,
  and \<^verbatim>\<open>WITH_CUDA\<close> is defined, the call is the call of
  \<^verbatim>\<open>RoIAlign_forward_cuda\<close> on the same seven arguments in the same order: the same
  outcome and the same state after it, from every state. When \<open>input\<close> is not on the GPU,
  it is the call of \<^verbatim>\<open>RoIAlign_forward_cpu\<close> on the same arguments in the same
  order.
\<close>

theorem RoIAlign_forward_dispatch:
  "(is_cuda input \<and> WITH_CUDA \<longrightarrow>
      RoIAlign_forward WITH_CUDA cuda cpu input rois scale_h scale_w
          pooled_height pooled_width sampling_ratio
        = cuda input rois scale_h scale_w pooled_height pooled_width sampling_ratio) \<and>
   (\<not> is_cuda input \<longrightarrow>
      RoIAlign_forward WITH_CUDA cuda cpu input rois scale_h scale_w
          pooled_height pooled_width sampling_ratio
        = cpu input rois scale_h scale_w pooled_height pooled_width sampling_ratio)"
  by (simp add: RoIAlign_forward_def)

theorem RoIAlign_forward_dispatch_witness:
  "is_cuda gpu_tensor \<and> \<not> is_cuda cpu_tensor \<and>
   RoIAlign_forward True (logging_forward CUDA_kernel) (logging_forward CPU_kernel)
       gpu_tensor cpu_tensor 1 2 3 4 5 []
     = (Inr gpu_tensor, [CUDA_kernel]) \<and>
   RoIAlign_forward False (logging_forward CUDA_kernel) (logging_forward CPU_kernel)
       cpu_tensor gpu_tensor 1 2 3 4 5 []
     = (Inr cpu_tensor, [CPU_kernel])"
  using RoIAlign_forward_dispatch [where input = gpu_tensor and WITH_CUDA = True
      and cuda = "logging_forward CUDA_kernel" and cpu = "logging_forward CPU_kernel"
      and rois = cpu_tensor and scale_h = 1 and scale_w = 2 and pooled_height = 3
      and pooled_width = 4 and sampling_ratio = 5]
    RoIAlign_forward_dispatch [where input = cpu_tensor and WITH_CUDA = False
      and cuda = "logging_forward CUDA_kernel" and cpu = "logging_forward CPU_kernel"
      and rois = gpu_tensor and scale_h = 1 and scale_w = 2 and pooled_height = 3
      and pooled_width = 4 and sampling_ratio = 5]
  by (simp add: is_cuda_gpu_tensor not_is_cuda_cpu_tensor logging_forward_def)

text \<open>
  C3: \<^verbatim>\<open>RoIAlign_backward\<close> branches on whether \<open>grad\<close> is on the GPU. When it is,
  and \<^verbatim>\<open>WITH_CUDA\<close> is defined, the call is the call of
  \<^verbatim>\<open>RoIAlign_backward_cuda\<close> on the same eleven arguments in the same order; when
  \<open>grad\<close> is not on the GPU, it is the call of \<^verbatim>\<open>RoIAlign_backward_cpu\<close> on the
  same arguments in the same order.
\<close>

theorem RoIAlign_backward_dispatch:
  "(is_cuda grad \<and> WITH_CUDA \<longrightarrow>
      RoIAlign_backward WITH_CUDA cuda cpu grad rois scale_h scale_w
          pooled_height pooled_width batch_size channels height width sampling_ratio
        = cuda grad rois scale_h scale_w pooled_height pooled_width
            batch_size channels height width sampling_ratio) \<and>
   (\<not> is_cuda grad \<longrightarrow>
      RoIAlign_backward WITH_CUDA cuda cpu grad rois scale_h scale_w
          pooled_height pooled_width batch_size channels height width sampling_ratio
        = cpu grad rois scale_h scale_w pooled_height pooled_width
            batch_size channels height width sampling_ratio)"
  by (simp add: RoIAlign_backward_def)

theorem RoIAlign_backward_dispatch_witness:
  "is_cuda gpu_tensor \<and> \<not> is_cuda cpu_tensor \<and>
   RoIAlign_backward True (logging_backward CUDA_kernel) (logging_backward CPU_kernel)
       gpu_tensor cpu_tensor 1 2 3 4 5 6 7 8 9 []
     = (Inr gpu_tensor, [CUDA_kernel]) \<and>
   RoIAlign_backward False (logging_backward CUDA_kernel) (logging_backward CPU_kernel)
       cpu_tensor gpu_tensor 1 2 3 4 5 6 7 8 9 []
     = (Inr cpu_tensor, [CPU_kernel])"
  using RoIAlign_backward_dispatch [where grad = gpu_tensor and WITH_CUDA = True
      and cuda = "logging_backward CUDA_kernel" and cpu = "logging_backward CPU_kernel"
      and rois = cpu_tensor and scale_h = 1 and scale_w = 2 and pooled_height = 3
      and pooled_width = 4 and batch_size = 5 and channels = 6 and height = 7 and width = 8
      and sampling_ratio = 9]
    RoIAlign_backward_dispatch [where grad = cpu_tensor and WITH_CUDA = False
      and cuda = "logging_backward CUDA_kernel" and cpu = "logging_backward CPU_kernel"
      and rois = gpu_tensor and scale_h = 1 and scale_w = 2 and pooled_height = 3
      and pooled_width = 4 and batch_size = 5 and channels = 6 and height = 7 and width = 8
      and sampling_ratio = 9]
  by (simp add: is_cuda_gpu_tensor not_is_cuda_cpu_tensor logging_backward_def)

text \<open>
  C7: the abort is the only error of the entry points themselves, and it is reached under
  its condition only. If a call ends in an error \<open>e\<close>, then either the build has no
  \<^verbatim>\<open>WITH_CUDA\<close>, the first tensor is on the GPU and \<open>e\<close> is the abort, or \<open>e\<close> is the
  error with which the kernel that was called ended. And when \<^verbatim>\<open>WITH_CUDA\<close> is
  defined, or the first tensor is not on the GPU, the trace of the call has no abort.
\<close>

theorem gpu_support_abort_only_error:
  "(fst (RoIAlign_forward WITH_CUDA cuda cpu input rois scale_h scale_w
           pooled_height pooled_width sampling_ratio s) = Inl e \<longrightarrow>
      (\<not> WITH_CUDA \<and> is_cuda input \<and> e = Error ''Not compiled with GPU support'') \<or>
      (WITH_CUDA \<and> is_cuda input \<and>
         fst (cuda input rois scale_h scale_w pooled_height pooled_width sampling_ratio s)
           = Inl e) \<or>
      (\<not> is_cuda input \<and>
         fst (cpu input rois scale_h scale_w pooled_height pooled_width sampling_ratio s)
           = Inl e)) \<and>
   (WITH_CUDA \<or> \<not> is_cuda input \<longrightarrow>
      Abort \<notin> set (forward_trace WITH_CUDA input rois scale_h scale_w
                      pooled_height pooled_width sampling_ratio)) \<and>
   (fst (RoIAlign_backward WITH_CUDA cuda' cpu' grad rois scale_h scale_w
           pooled_height pooled_width batch_size channels height width sampling_ratio s)
        = Inl e' \<longrightarrow>
      (\<not> WITH_CUDA \<and> is_cuda grad \<and> e' = Error ''Not compiled with GPU support'') \<or>
      (WITH_CUDA \<and> is_cuda grad \<and>
         fst (cuda' grad rois scale_h scale_w pooled_height pooled_width
                batch_size channels height width sampling_ratio s) = Inl e') \<or>
      (\<not> is_cuda grad \<and>
         fst (cpu' grad rois scale_h scale_w pooled_height pooled_width
                batch_size channels height width sampling_ratio s) = Inl e')) \<and>
   (WITH_CUDA \<or> \<not> is_cuda grad \<longrightarrow>
      Abort \<notin> set (backward_trace WITH_CUDA grad rois scale_h scale_w
                      pooled_height pooled_width batch_size channels height width
                      sampling_ratio))"
  by (simp add: RoIAlign_forward_def RoIAlign_backward_def AT_ERROR_def
        forward_trace_eq backward_trace_eq)

theorem gpu_support_abort_only_error_witness:
  "fst (RoIAlign_forward False (logging_forward CUDA_kernel) (logging_forward CPU_kernel)
          gpu_tensor cpu_tensor 1 2 3 4 5 [])
     = Inl (Error ''Not compiled with GPU support'') \<and>
   fst (RoIAlign_backward False (logging_backward CUDA_kernel) (logging_backward CPU_kernel)
          gpu_tensor cpu_tensor 1 2 3 4 6 7 8 9 5 [])
     = Inl (Error ''Not compiled with GPU support'') \<and>
   is_cuda gpu_tensor \<and>
   Abort \<notin> set (forward_trace True gpu_tensor cpu_tensor 1 2 3 4 5) \<and>
   Abort \<notin> set (backward_trace True gpu_tensor cpu_tensor 1 2 3 4 6 7 8 9 5) \<and>
   \<not> is_cuda cpu_tensor \<and>
   Abort \<notin> set (forward_trace False cpu_tensor cpu_tensor 1 2 3 4 5) \<and>
   Abort \<notin> set (backward_trace False cpu_tensor cpu_tensor 1 2 3 4 6 7 8 9 5)"
  using gpu_support_abort_only_error [where WITH_CUDA = False
      and input = gpu_tensor and grad = gpu_tensor
      and cuda = "logging_forward CUDA_kernel" and cpu = "logging_forward CPU_kernel"
      and cuda' = "logging_backward CUDA_kernel" and cpu' = "logging_backward CPU_kernel"
      and rois = cpu_tensor and scale_h = 1 and scale_w = 2 and pooled_height = 3
      and pooled_width = 4 and sampling_ratio = 5 and batch_size = 6 and channels = 7
      and height = 8 and width = 9 and s = "[]"
      and e = "Error ''Not compiled with GPU support''"
      and e' = "Error ''Not compiled with GPU support''"]
    gpu_support_abort_only_error [where WITH_CUDA = True
      and input = gpu_tensor and grad = gpu_tensor
      and rois = cpu_tensor and scale_h = 1 and scale_w = 2 and pooled_height = 3
      and pooled_width = 4 and sampling_ratio = 5 and batch_size = 6 and channels = 7
      and height = 8 and width = 9]
    gpu_support_abort_only_error [where WITH_CUDA = False
      and input = cpu_tensor and grad = cpu_tensor
      and rois = cpu_tensor and scale_h = 1 and scale_w = 2 and pooled_height = 3
      and pooled_width = 4 and sampling_ratio = 5 and batch_size = 6 and channels = 7
      and height = 8 and width = 9]
  by (simp add: is_cuda_gpu_tensor not_is_cuda_cpu_tensor RoIAlign_forward_def
        RoIAlign_backward_def AT_ERROR_def)

subsection \<open>The entry points add nothing to the kernel they select\<close>

text \<open>
  C8 says that on every input the result of an entry point is that of the selected kernel
  on the unmodified arguments. In a build without \<^verbatim>\<open>WITH_CUDA\<close> no kernel is
  selected for a tensor on the GPU, and the result of the call is that of neither kernel.
\<close>

theorem selected_kernel_counterexample:
  "selected_kernel False (logging_forward CUDA_kernel) (logging_forward CPU_kernel) gpu_tensor
     = None \<and>
   RoIAlign_forward False (logging_forward CUDA_kernel) (logging_forward CPU_kernel)
       gpu_tensor cpu_tensor 1 2 3 4 5 []
     \<noteq> logging_forward CUDA_kernel gpu_tensor cpu_tensor 1 2 3 4 5 [] \<and>
   RoIAlign_forward False (logging_forward CUDA_kernel) (logging_forward CPU_kernel)
       gpu_tensor cpu_tensor 1 2 3 4 5 []
     \<noteq> logging_forward CPU_kernel gpu_tensor cpu_tensor 1 2 3 4 5 []"
  by (simp add: selected_kernel_def RoIAlign_forward_def is_cuda_gpu_tensor AT_ERROR_def
        logging_forward_def)

text \<open>
  C8, amended: on every input for which a kernel is selected (the first tensor is not on
  the GPU, or \<^verbatim>\<open>WITH_CUDA\<close> is defined), the entry point is the selected kernel on the
  unmodified arguments: the same outcome and the same state after it, from every state.
  No kernel is selected exactly for a tensor on the GPU in a build without
  \<^verbatim>\<open>WITH_CUDA\<close>, and then the call aborts: it gives the error and leaves the state as
  it was.
\<close>

theorem entry_point_is_selected_kernel:
  "(selected_kernel WITH_CUDA cuda cpu input = Some k \<longrightarrow>
      RoIAlign_forward WITH_CUDA cuda cpu input rois scale_h scale_w
          pooled_height pooled_width sampling_ratio
        = k input rois scale_h scale_w pooled_height pooled_width sampling_ratio) \<and>
   (selected_kernel WITH_CUDA cuda' cpu' grad = Some k' \<longrightarrow>
      RoIAlign_backward WITH_CUDA cuda' cpu' grad rois scale_h scale_w
          pooled_height pooled_width batch_size channels height width sampling_ratio
        = k' grad rois scale_h scale_w pooled_height pooled_width
            batch_size channels height width sampling_ratio) \<and>
   (selected_kernel WITH_CUDA cuda cpu input = None \<longrightarrow>
      RoIAlign_forward WITH_CUDA cuda cpu input rois scale_h scale_w
          pooled_height pooled_width sampling_ratio s
        = (Inl (Error ''Not compiled with GPU support''), s)) \<and>
   (selected_kernel WITH_CUDA cuda' cpu' grad = None \<longrightarrow>
      RoIAlign_backward WITH_CUDA cuda' cpu' grad rois scale_h scale_w
          pooled_height pooled_width batch_size channels height width sampling_ratio s
        = (Inl (Error ''Not compiled with GPU support''), s)) \<and>
   (selected_kernel WITH_CUDA cuda cpu input = None) = (\<not> WITH_CUDA \<and> is_cuda input) \<and>
   (selected_kernel WITH_CUDA cuda' cpu' grad = None) = (\<not> WITH_CUDA \<and> is_cuda grad)"
  by (auto simp add: selected_kernel_def RoIAlign_forward_def RoIAlign_backward_def
        AT_ERROR_def split: if_splits)

theorem entry_point_is_selected_kernel_witness:
  "selected_kernel True (logging_forward CUDA_kernel) (logging_forward CPU_kernel) gpu_tensor
     = Some (logging_forward CUDA_kernel) \<and>
   RoIAlign_forward True (logging_forward CUDA_kernel) (logging_forward CPU_kernel)
       gpu_tensor cpu_tensor 1 2 3 4 5 []
     = (Inr gpu_tensor, [CUDA_kernel]) \<and>
   selected_kernel True (logging_backward CUDA_kernel) (logging_backward CPU_kernel) cpu_tensor
     = Some (logging_backward CPU_kernel) \<and>
   RoIAlign_backward True (logging_backward CUDA_kernel) (logging_backward CPU_kernel)
       cpu_tensor cpu_tensor 1 2 3 4 6 7 8 9 5 []
     = (Inr cpu_tensor, [CPU_kernel]) \<and>
   selected_kernel False (logging_forward CUDA_kernel) (logging_forward CPU_kernel) gpu_tensor
     = None \<and>
   RoIAlign_forward False (logging_forward CUDA_kernel) (logging_forward CPU_kernel)
       gpu_tensor cpu_tensor 1 2 3 4 5 [CPU_kernel]
     = (Inl (Error ''Not compiled with GPU support''), [CPU_kernel]) \<and>
   selected_kernel False (logging_backward CUDA_kernel) (logging_backward CPU_kernel) gpu_tensor
     = None \<and>
   RoIAlign_backward False (logging_backward CUDA_kernel) (logging_backward CPU_kernel)
       gpu_tensor cpu_tensor 1 2 3 4 6 7 8 9 5 [CPU_kernel]
     = (Inl (Error ''Not compiled with GPU support''), [CPU_kernel])"
  using entry_point_is_selected_kernel [where WITH_CUDA = True
      and input = gpu_tensor and grad = cpu_tensor
      and cuda = "logging_forward CUDA_kernel" and cpu = "logging_forward CPU_kernel"
      and cuda' = "logging_backward CUDA_kernel" and cpu' = "logging_backward CPU_kernel"
      and k = "logging_forward CUDA_kernel" and k' = "logging_backward CPU_kernel"
      and rois = cpu_tensor and scale_h = 1 and scale_w = 2 and pooled_height = 3
      and pooled_width = 4 and sampling_ratio = 5 and batch_size = 6 and channels = 7
      and height = 8 and width = 9]
    entry_point_is_selected_kernel [where WITH_CUDA = False
      and input = gpu_tensor and grad = gpu_tensor
      and cuda = "logging_forward CUDA_kernel" and cpu = "logging_forward CPU_kernel"
      and cuda' = "logging_backward CUDA_kernel" and cpu' = "logging_backward CPU_kernel"
      and rois = cpu_tensor and scale_h = 1 and scale_w = 2 and pooled_height = 3
      and pooled_width = 4 and sampling_ratio = 5 and batch_size = 6 and channels = 7
      and height = 8 and width = 9 and s = "[CPU_kernel]"]
  by (simp add: selected_kernel_def is_cuda_gpu_tensor not_is_cuda_cpu_tensor
        logging_forward_def logging_backward_def)

subsection \<open>The dispatch looks at the device of the first tensor only\<close>

text \<open>
  C9: two calls of \<^verbatim>\<open>RoIAlign_forward\<close> in the same build whose \<open>input\<close> tensors
  are on the same device take the same branch (the CUDA kernel, the CPU kernel or the
  abort), whatever \<open>rois\<close> and the scalars of the two calls are; the same holds of
  \<^verbatim>\<open>RoIAlign_backward\<close> and \<open>grad\<close>. The device of \<open>rois\<close> is among what may
  differ.
\<close>

theorem dispatch_depends_on_first_device_only:
  "(device input = device input' \<longrightarrow>
      forward_trace WITH_CUDA input rois scale_h scale_w
          pooled_height pooled_width sampling_ratio
        = forward_trace WITH_CUDA input' rois' scale_h' scale_w'
            pooled_height' pooled_width' sampling_ratio') \<and>
   (device grad = device grad' \<longrightarrow>
      backward_trace WITH_CUDA grad rois scale_h scale_w
          pooled_height pooled_width batch_size channels height width sampling_ratio
        = backward_trace WITH_CUDA grad' rois' scale_h' scale_w'
            pooled_height' pooled_width' batch_size' channels' height' width' sampling_ratio')"
  by (simp add: forward_trace_eq backward_trace_eq is_cuda_def)

theorem dispatch_depends_on_first_device_only_witness:
  "device gpu_tensor = device (gpu_tensor\<lparr>sizes := [7]\<rparr>) \<and>
   forward_trace False gpu_tensor cpu_tensor 1 2 3 4 5
     = forward_trace False (gpu_tensor\<lparr>sizes := [7]\<rparr>) gpu_tensor 11 12 13 14 15 \<and>
   backward_trace False gpu_tensor cpu_tensor 1 2 3 4 6 7 8 9 5
     = backward_trace False (gpu_tensor\<lparr>sizes := [7]\<rparr>) gpu_tensor
         11 12 13 14 16 17 18 19 15"
  using dispatch_depends_on_first_device_only [where WITH_CUDA = False
      and input = gpu_tensor and input' = "gpu_tensor\<lparr>sizes := [7]\<rparr>"
      and grad = gpu_tensor and grad' = "gpu_tensor\<lparr>sizes := [7]\<rparr>"
      and rois = cpu_tensor and rois' = gpu_tensor
      and scale_h = 1 and scale_w = 2 and pooled_height = 3
      and pooled_width = 4 and sampling_ratio = 5 and batch_size = 6 and channels = 7
      and height = 8 and width = 9
      and scale_h' = 11 and scale_w' = 12 and pooled_height' = 13
      and pooled_width' = 14 and sampling_ratio' = 15 and batch_size' = 16 and channels' = 17
      and height' = 18 and width' = 19]
  by simp

subsection \<open>The abort comes before any kernel\<close>

text \<open>
  C10: when a call takes the abort, the abort is all that its trace holds: no kernel was
  called before it. Then, with any kernels, with any other \<open>rois\<close> and scalars and from
  any state, the call gives the error and leaves the state as it was.
\<close>

theorem abort_before_any_kernel:
  "(Abort \<in> set (forward_trace WITH_CUDA input rois scale_h scale_w
                    pooled_height pooled_width sampling_ratio) \<longrightarrow>
      forward_trace WITH_CUDA input rois scale_h scale_w
          pooled_height pooled_width sampling_ratio = [Abort] \<and>
      RoIAlign_forward WITH_CUDA cuda cpu input rois' scale_h' scale_w'
          pooled_height' pooled_width' sampling_ratio' s
        = (Inl (Error ''Not compiled with GPU support''), s)) \<and>
   (Abort \<in> set (backward_trace WITH_CUDA grad rois scale_h scale_w
                    pooled_height pooled_width batch_size channels height width
                    sampling_ratio) \<longrightarrow>
      backward_trace WITH_CUDA grad rois scale_h scale_w
          pooled_height pooled_width batch_size channels height width sampling_ratio
        = [Abort] \<and>
      RoIAlign_backward WITH_CUDA cuda' cpu' grad rois' scale_h' scale_w'
          pooled_height' pooled_width' batch_size' channels' height' width' sampling_ratio' s
        = (Inl (Error ''Not compiled with GPU support''), s))"
  by (simp add: forward_trace_eq backward_trace_eq RoIAlign_forward_def
        RoIAlign_backward_def AT_ERROR_def)

theorem abort_before_any_kernel_witness:
  "Abort \<in> set (forward_trace False gpu_tensor cpu_tensor 1 2 3 4 5) \<and>
   RoIAlign_forward False (logging_forward CUDA_kernel) (logging_forward CPU_kernel)
       gpu_tensor gpu_tensor 11 12 13 14 15 [CPU_kernel]
     = (Inl (Error ''Not compiled with GPU support''), [CPU_kernel]) \<and>
   Abort \<in> set (backward_trace False gpu_tensor cpu_tensor 1 2 3 4 6 7 8 9 5) \<and>
   RoIAlign_backward False (logging_backward CUDA_kernel) (logging_backward CPU_kernel)
       gpu_tensor gpu_tensor 11 12 13 14 16 17 18 19 15 [CPU_kernel]
     = (Inl (Error ''Not compiled with GPU support''), [CPU_kernel])"
  using abort_before_any_kernel [where WITH_CUDA = False
      and input = gpu_tensor and grad = gpu_tensor
      and cuda = "logging_forward CUDA_kernel" and cpu = "logging_forward CPU_kernel"
      and cuda' = "logging_backward CUDA_kernel" and cpu' = "logging_backward CPU_kernel"
      and rois = cpu_tensor and rois' = gpu_tensor
      and scale_h = 1 and scale_w = 2 and pooled_height = 3
      and pooled_width = 4 and sampling_ratio = 5 and batch_size = 6 and channels = 7
      and height = 8 and width = 9
      and scale_h' = 11 and scale_w' = 12 and pooled_height' = 13
      and pooled_width' = 14 and sampling_ratio' = 15 and batch_size' = 16 and channels' = 17
      and height' = 18 and width' = 19 and s = "[CPU_kernel]"]
  by (simp add: forward_trace_eq backward_trace_eq is_cuda_gpu_tensor)

subsection \<open>What the text of the header holds\<close>

lemma no_star_no_backslash:
  "list_all (\<lambda>l. \<not> List.member l (CHR ''*'') \<and> \<not> List.member l (CHR 0x5C)) RoIAlign_h"
  by code_simp

lemma enabled_first_line: "tokens (enabled (take 1 RoIAlign_h)) = [''#'', ''pragma'', ''once'']"
  by code_simp

text \<open>
  C4: each of the 55 lines of the header is blank or a line comment, and what is left of
  the file once the comments are removed holds no token: there is nothing in it that could
  declare or define a function, a type or any other symbol.
\<close>

theorem header_has_no_active_code:
  "length RoIAlign_h = 55 \<and> list_all disabled RoIAlign_h \<and> tokens RoIAlign_h = []"
  by code_simp


lemma declared_backward:
  "declared ''RoIAlign_backward'' (tokens (enabled RoIAlign_h)) =
     Some (''at::Tensor'',
       [''const'', ''at::Tensor'', ''&'', ''grad'', '','',
        ''const'', ''at::Tensor'', ''&'', ''rois'', '','',
        ''const'', ''float'', ''scale_h'', '','',
        ''const'', ''float'', ''scale_w'', '','',
        ''const'', ''int'', ''pooled_height'', '','',
        ''const'', ''int'', ''pooled_width'', '','',
        ''const'', ''int'', ''batch_size'', '','',
        ''const'', ''int'', ''channels'', '','',
        ''const'', ''int'', ''height'', '','',
        ''const'', ''int'', ''width'', '','',
        ''const'', ''int'', ''sampling_ratio''],
       [])"
  by code_simp



text \<open>
  C6: once the header is enabled, it declares \<^verbatim>\<open>RoIAlign_backward\<close> with the return
  type \<^verbatim>\<open>at::Tensor\<close> and eleven parameters, named \<open>grad\<close>, \<open>rois\<close>, \<open>scale_h\<close>,
  \<open>scale_w\<close>, \<open>pooled_height\<close>, \<open>pooled_width\<close>, \<open>batch_size\<close>, \<open>channels\<close>, \<open>height\<close>,
  \<open>width\<close> and \<open>sampling_ratio\<close>, in this order.
\<close>

theorem RoIAlign_backward_signature:
  "signature ''RoIAlign_backward'' (tokens (enabled RoIAlign_h)) =
     Some (''at::Tensor'',
           [''grad'', ''rois'', ''scale_h'', ''scale_w'', ''pooled_height'', ''pooled_width'',
            ''batch_size'', ''channels'', ''height'', ''width'', ''sampling_ratio''])"
  unfolding signature_def read_declaration_def declared_backward
  by code_simp

end
